theory Spec2Isabelle
  imports Complex_Main "HOL-Library.Sublist"
begin

section \<open>Python and numpy primitives\<close>

text \<open>
  The evaluation scripts are Python 2 over numpy, pandas and scikit-learn. Arrays and
  Series are lists, Python floats are exact reals (rounding is outside the model), and
  every exception the code can raise is a value of \<open>py_error\<close>, returned on the left
  of a sum.
\<close>

datatype py_error = IndexError | ValueError | ZeroDivisionError | KeyError

text \<open>\<^verbatim>\<open>int(x)\<close> on a float truncates towards zero.\<close>

definition py_int :: "real \<Rightarrow> int" where
  "py_int x = (if 0 \<le> x then \<lfloor>x\<rfloor> else \<lceil>x\<rceil>)"

text \<open>
  \<^verbatim>\<open>a[i]\<close> on a one-dimensional array with an integer: a negative index counts from the
  end, and an index outside the array raises IndexError.
\<close>

definition np_getitem :: "'a list \<Rightarrow> int \<Rightarrow> py_error + 'a" where
  "np_getitem a i =
     (let n = int (length a); j = (if i < 0 then i + n else i)
      in if 0 \<le> j \<and> j < n then Inr (a ! nat j) else Inl IndexError)"

text \<open>
  \<^verbatim>\<open>a[indices]\<close> with an array of non-negative indices: the elements at those positions,
  in the order of the indices; IndexError as soon as one index is outside the array.
\<close>

fun np_take :: "'a list \<Rightarrow> nat list \<Rightarrow> py_error + 'a list" where
  "np_take a [] = Inr []"
| "np_take a (i # rest) =
     (if i < length a
      then (case np_take a rest of Inl e \<Rightarrow> Inl e | Inr r \<Rightarrow> Inr (a ! i # r))
      else Inl IndexError)"

text \<open>\<^verbatim>\<open>np.unique(a)\<close>: the distinct elements of the array, ascending.\<close>

definition np_unique :: "'a::linorder list \<Rightarrow> 'a list" where
  "np_unique a = sort (remdups a)"

section \<open>The bootstrap estimator (utils/aggregated_scores.py)\<close>

text \<open>
  \<^verbatim>\<open>score_bootstrap(score_fun, y_true, y_pred, pvalue, iter)\<close>. The generator
  \<^verbatim>\<open>np.random.RandomState()\<close> is seeded from the operating system, so its output is an
  input of the model: \<open>rng i\<close> is the array that
  \<^verbatim>\<open>rng.random_integers(0, len(y_pred) - 1, len(y_pred))\<close> returns in iteration \<open>i\<close>.
  numpy promises \<open>len(y_pred)\<close> integers, each in the closed range from 0 to
  \<open>len(y_pred) - 1\<close> (predicate \<open>valid_draws\<close>), and raises ValueError when that range is
  empty. The score function may raise, so it returns a sum. The iteration count is a
  natural number: a negative \<^verbatim>\<open>iter\<close> runs no iteration, as 0 does.
\<close>

fun bootstrap_loop ::
  "('a::linorder list \<Rightarrow> 'b list \<Rightarrow> py_error + real) \<Rightarrow> 'a list \<Rightarrow> 'b list \<Rightarrow>
   (nat \<Rightarrow> nat list) \<Rightarrow> nat list \<Rightarrow> real list \<Rightarrow> py_error + real list" where
  "bootstrap_loop score_fun y_true y_pred rng [] bootstrapped_scores = Inr bootstrapped_scores"
| "bootstrap_loop score_fun y_true y_pred rng (i # rest) bootstrapped_scores =
     (if length y_pred = 0 then Inl ValueError
      else
        (let indices = rng i in
         case np_take y_true indices of
           Inl e \<Rightarrow> Inl e
         | Inr yt \<Rightarrow>
             if length (np_unique yt) < 2
             then bootstrap_loop score_fun y_true y_pred rng rest bootstrapped_scores
             else
               (case np_take y_pred indices of
                  Inl e \<Rightarrow> Inl e
                | Inr yp \<Rightarrow>
                    (case score_fun yt yp of
                       Inl e \<Rightarrow> Inl e
                     | Inr score \<Rightarrow>
                         bootstrap_loop score_fun y_true y_pred rng rest
                           (bootstrapped_scores @ [score])))))"

definition score_bootstrap ::
  "('a::linorder list \<Rightarrow> 'b list \<Rightarrow> py_error + real) \<Rightarrow> 'a list \<Rightarrow> 'b list \<Rightarrow>
   real \<Rightarrow> nat \<Rightarrow> (nat \<Rightarrow> nat list) \<Rightarrow> py_error + (real \<times> real)" where
  "score_bootstrap score_fun y_true y_pred pvalue iter rng =
     (case bootstrap_loop score_fun y_true y_pred rng [0..<iter] [] of
        Inl e \<Rightarrow> Inl e
      | Inr bootstrapped_scores \<Rightarrow>
          (let sorted_scores = sort bootstrapped_scores in
           case np_getitem sorted_scores
                  (py_int (pvalue * real (length sorted_scores))) of
             Inl e \<Rightarrow> Inl e
           | Inr confidence_lower \<Rightarrow>
               (case np_getitem sorted_scores
                       (py_int ((1 - pvalue) * real (length sorted_scores))) of
                  Inl e \<Rightarrow> Inl e
                | Inr confidence_upper \<Rightarrow> Inr (confidence_lower, confidence_upper))))"




section \<open>The Brier score (utils/aggregated_scores.py)\<close>

text \<open>\<^verbatim>\<open>a.max()\<close> and \<^verbatim>\<open>a.min()\<close>: ValueError on an empty array.\<close>

definition np_max :: "'a::linorder list \<Rightarrow> py_error + 'a" where
  "np_max a = (if a = [] then Inl ValueError else Inr (Max (set a)))"

definition np_min :: "'a::linorder list \<Rightarrow> py_error + 'a" where
  "np_min a = (if a = [] then Inl ValueError else Inr (Min (set a)))"

text \<open>
  \<^verbatim>\<open>check_consistent_length(*arrays)\<close>, applied to the list of \<^verbatim>\<open>_num_samples(X)\<close> of
  its arguments.
\<close>

definition check_consistent_length :: "nat list \<Rightarrow> py_error + unit" where
  "check_consistent_length num_samples =
     (let uniques = np_unique num_samples
      in if 1 < length uniques then Inl ValueError else Inr ())"

text \<open>
  scikit-learn's \<^verbatim>\<open>label_binarize(y, classes)[:, 0]\<close> for two classes: one column, 1
  where the label is the second (greater) class and 0 elsewhere.
\<close>

definition label_binarize_col :: "'a list \<Rightarrow> 'a list \<Rightarrow> int list" where
  "label_binarize_col y classes = map (\<lambda>v. if v = classes ! 1 then 1 else 0) y"

definition check_binary_probabilistic_predictions ::
  "int list \<Rightarrow> real list \<Rightarrow> py_error + int list" where
  "check_binary_probabilistic_predictions y_true y_prob =
     (case check_consistent_length [length y_true, length y_prob] of
        Inl e \<Rightarrow> Inl e
      | Inr _ \<Rightarrow>
          (let labels = np_unique y_true in
           if length labels \<noteq> 2 then Inl ValueError
           else
             (case np_max y_prob of
                Inl e \<Rightarrow> Inl e
              | Inr mx \<Rightarrow>
                  if 1 < mx then Inl ValueError
                  else
                    (case np_min y_prob of
                       Inl e \<Rightarrow> Inl e
                     | Inr mn \<Rightarrow>
                         if mn < 0 then Inl ValueError
                         else Inr (label_binarize_col y_true labels)))))"

text \<open>
  \<^verbatim>\<open>np.average(a, weights=None)\<close> is the arithmetic mean. (On an empty array numpy
  yields nan; \<open>brier_score_loss\<close> never reaches that case, since two distinct labels
  need two observations.)
\<close>

definition np_average :: "real list \<Rightarrow> real" where
  "np_average a = sum_list a / real (length a)"

text \<open>
  \<^verbatim>\<open>brier_score_loss(y_true, y_prob, sample_weight=None, pos_label=None)\<close>. Every call
  in the repository leaves \<^verbatim>\<open>sample_weight\<close> at None, and the model fixes it there.
  \<^verbatim>\<open>column_or_1d\<close> is the identity on one-dimensional input.
\<close>

definition brier_score_loss :: "'a::linorder list \<Rightarrow> real list \<Rightarrow> 'a option \<Rightarrow> py_error + real" where
  "brier_score_loss y_true y_prob pos_label =
     (case (case pos_label of None \<Rightarrow> np_max y_true | Some l \<Rightarrow> Inr l) of
        Inl e \<Rightarrow> Inl e
      | Inr pos \<Rightarrow>
          (let y_true1 = map (\<lambda>v. if v = pos then 1 else 0) y_true in
           case check_binary_probabilistic_predictions y_true1 y_prob of
             Inl e \<Rightarrow> Inl e
           | Inr y_true2 \<Rightarrow>
               Inr (np_average (map2 (\<lambda>t p. (real_of_int t - p)\<^sup>2) y_true2 y_prob))))"

text \<open>The label vector the score is computed against, as the specification words it.\<close>

definition positive_indicator :: "'a::linorder list \<Rightarrow> 'a option \<Rightarrow> int list" where
  "positive_indicator y_true pos_label =
     map (\<lambda>v. if v = (case pos_label of None \<Rightarrow> Max (set y_true) | Some l \<Rightarrow> l) then 1 else 0)
       y_true"

definition brier_bootstrap ::
  "'a::linorder list \<Rightarrow> real list \<Rightarrow> real \<Rightarrow> nat \<Rightarrow> (nat \<Rightarrow> nat list) \<Rightarrow> py_error + (real \<times> real)" where
  "brier_bootstrap y_true y_pred pvalue iter rng =
     score_bootstrap (\<lambda>a b. brier_score_loss a b None) y_true y_pred pvalue iter rng"

section \<open>Python string operations\<close>

text \<open>\<^verbatim>\<open>s.find(sub)\<close>: the least index at which \<open>sub\<close> occurs in \<open>s\<close>, or -1.\<close>

fun py_find :: "string \<Rightarrow> string \<Rightarrow> int" where
  "py_find [] sub = (if sub = [] then 0 else - 1)"
| "py_find (c # cs) sub =
     (if prefix sub (c # cs) then 0
      else (let r = py_find cs sub in if r < 0 then - 1 else r + 1))"

text \<open>
  \<^verbatim>\<open>s[a:b]\<close>: a negative bound counts from the end, both bounds are clamped to the
  string, and the slice is empty when the bounds cross.
\<close>

definition py_slice :: "'a list \<Rightarrow> int \<Rightarrow> int \<Rightarrow> 'a list" where
  "py_slice s a b =
     (let n = int (length s);
          lo = (if a < 0 then max (a + n) 0 else min a n);
          hi = (if b < 0 then max (b + n) 0 else min b n)
      in take (nat (hi - lo)) (drop (nat lo) s))"

text \<open>\<^verbatim>\<open>s.split(sep)\<close> for a separator of one character.\<close>

fun py_split :: "string \<Rightarrow> char \<Rightarrow> string list" where
  "py_split [] sep = [[]]"
| "py_split (c # cs) sep =
     (if c = sep then [] # py_split cs sep
      else (case py_split cs sep of
              [] \<Rightarrow> [[c]]
            | w # ws \<Rightarrow> (c # w) # ws))"

text \<open>\<^verbatim>\<open>s.strip()\<close>: without its leading and trailing ASCII whitespace.\<close>

definition py_isspace :: "char \<Rightarrow> bool" where
  "py_isspace c = (c \<in> set [CHR '' '', CHR 0x09, CHR 0x0A, CHR 0x0B, CHR 0x0C, CHR 0x0D])"

definition py_strip :: "string \<Rightarrow> string" where
  "py_strip s = rev (dropWhile py_isspace (rev (dropWhile py_isspace s)))"

text \<open>\<^verbatim>\<open>sep.join(xs)\<close>.\<close>

fun py_join :: "string \<Rightarrow> string list \<Rightarrow> string" where
  "py_join sep [] = []"
| "py_join sep [x] = x"
| "py_join sep (x # y # ys) = x @ sep @ py_join sep (y # ys)"

text \<open>\<^verbatim>\<open>xs[i]\<close> on a list with a non-negative constant index.\<close>

definition py_nth :: "'a list \<Rightarrow> nat \<Rightarrow> py_error + 'a" where
  "py_nth xs i = (if i < length xs then Inr (xs ! i) else Inl IndexError)"

text \<open>\<^verbatim>\<open>os.path.split(path)[1]\<close> on POSIX: what follows the last slash.\<close>

definition path_tail :: "string \<Rightarrow> string" where
  "path_tail path = rev (takeWhile (\<lambda>c. c \<noteq> CHR ''/'') (rev path))"

section \<open>Per-fold aggregation (eval.py)\<close>

text \<open>
  The predictor module that \<open>evaluate\<close> imports is code outside the repository's
  evaluation script; the model takes what the script uses of it: \<^verbatim>\<open>module.prefix()\<close>
  and \<^verbatim>\<open>module.eval(testfile, trainfile, pfile, method)\<close> for the methods 1
  (calibration, discrimination), 3 (per-class precision, recall, F1), 4 (ROC AUC) and 5
  (hit, false alarm, miss, correct rejection). Each may raise. Method 3 returns a
  fourth component that the script ignores. The file system is the
  predicate \<open>exists\<close> (\<^verbatim>\<open>os.path.exists\<close>), and \<open>test_files\<close> is what
  \<^verbatim>\<open>glob.glob("./data/testing-data-*.csv")\<close> returned. Printing is left out.
\<close>

record predictor_module =
  module_prefix :: string
  eval1 :: "string \<Rightarrow> string \<Rightarrow> string \<Rightarrow> py_error + (real \<times> real)"
  eval3 :: "string \<Rightarrow> string \<Rightarrow> string \<Rightarrow>
              py_error + ((real \<times> real) \<times> (real \<times> real) \<times> (real \<times> real))"
  eval4 :: "string \<Rightarrow> string \<Rightarrow> string \<Rightarrow> py_error + real"
  eval5 :: "string \<Rightarrow> string \<Rightarrow> string \<Rightarrow> py_error + (int \<times> int \<times> int \<times> int)"

text \<open>
  The five lines every aggregation function repeats for a test file: the fold id cut
  out of the file name, the params file, the training file, and the test that all
  three files exist.
\<close>

definition fold_id :: "string \<Rightarrow> string" where
  "fold_id testfile =
     (let start_idx = py_find testfile ''./data/testing-data-''
                        + int (length ''./data/testing-data-'');
          stop_idx = py_find testfile ''.csv''
      in py_slice testfile start_idx stop_idx)"

definition fold_pfile :: "predictor_module \<Rightarrow> string \<Rightarrow> string" where
  "fold_pfile m testfile = ''./data/'' @ module_prefix m @ ''-params-'' @ fold_id testfile"

definition fold_trainfile :: "string \<Rightarrow> string" where
  "fold_trainfile testfile = ''./data/training-data-completed-'' @ fold_id testfile @ ''.csv''"

definition fold_usable :: "(string \<Rightarrow> bool) \<Rightarrow> predictor_module \<Rightarrow> string \<Rightarrow> bool" where
  "fold_usable exists m testfile =
     (exists testfile \<and> exists (fold_pfile m testfile) \<and> exists (fold_trainfile testfile))"

text \<open>\<^verbatim>\<open>avg_cal_dis\<close>: the loop over the test files, then the two divisions.\<close>

fun avg_cal_dis_loop ::
  "(string \<Rightarrow> bool) \<Rightarrow> predictor_module \<Rightarrow> string list \<Rightarrow> nat \<times> real \<times> real \<Rightarrow>
   py_error + (nat \<times> real \<times> real)" where
  "avg_cal_dis_loop exists m [] st = Inr st"
| "avg_cal_dis_loop exists m (testfile # rest) (count, total_cal, total_dis) =
     (if fold_usable exists m testfile
      then (case eval1 m testfile (fold_trainfile testfile) (fold_pfile m testfile) of
              Inl e \<Rightarrow> Inl e
            | Inr (cal, dis) \<Rightarrow>
                avg_cal_dis_loop exists m rest (count + 1, total_cal + cal, total_dis + dis))
      else avg_cal_dis_loop exists m rest (count, total_cal, total_dis))"

definition avg_cal_dis ::
  "(string \<Rightarrow> bool) \<Rightarrow> predictor_module \<Rightarrow> string list \<Rightarrow> py_error + (real \<times> real)" where
  "avg_cal_dis exists m test_files =
     (case avg_cal_dis_loop exists m test_files (0, 0, 0) of
        Inl e \<Rightarrow> Inl e
      | Inr (count, total_cal, total_dis) \<Rightarrow>
          if count = 0 then Inl ZeroDivisionError
          else Inr (total_cal / real count, total_dis / real count))"

text \<open>
  \<^verbatim>\<open>avg_report\<close>: precision, recall and F1 are arrays with one entry per class, here
  pairs; sums and quotients are elementwise.
\<close>

definition add2 :: "real \<times> real \<Rightarrow> real \<times> real \<Rightarrow> real \<times> real" where
  "add2 a b = (fst a + fst b, snd a + snd b)"

definition div2 :: "real \<times> real \<Rightarrow> nat \<Rightarrow> real \<times> real" where
  "div2 a count = (fst a / real count, snd a / real count)"

fun avg_report_loop ::
  "(string \<Rightarrow> bool) \<Rightarrow> predictor_module \<Rightarrow> string list \<Rightarrow>
   nat \<times> (real \<times> real) \<times> (real \<times> real) \<times> (real \<times> real) \<Rightarrow>
   py_error + (nat \<times> (real \<times> real) \<times> (real \<times> real) \<times> (real \<times> real))" where
  "avg_report_loop exists m [] st = Inr st"
| "avg_report_loop exists m (testfile # rest) (count, total_prec, total_rec, total_f1) =
     (if fold_usable exists m testfile
      then (case eval3 m testfile (fold_trainfile testfile) (fold_pfile m testfile) of
              Inl e \<Rightarrow> Inl e
            | Inr (p, r, f) \<Rightarrow>
                avg_report_loop exists m rest
                  (count + 1, add2 total_prec p, add2 total_rec r, add2 total_f1 f))
      else avg_report_loop exists m rest (count, total_prec, total_rec, total_f1))"

definition avg_report ::
  "(string \<Rightarrow> bool) \<Rightarrow> predictor_module \<Rightarrow> string list \<Rightarrow>
   py_error + ((real \<times> real) \<times> (real \<times> real) \<times> (real \<times> real))" where
  "avg_report exists m test_files =
     (case avg_report_loop exists m test_files (0, (0, 0), (0, 0), (0, 0)) of
        Inl e \<Rightarrow> Inl e
      | Inr (count, total_prec, total_rec, total_f1) \<Rightarrow>
          if count = 0 then Inl ZeroDivisionError
          else Inr (div2 total_prec count, div2 total_rec count, div2 total_f1 count))"

text \<open>\<^verbatim>\<open>roc_plots\<close>, without the plotting: the average area under the curve.\<close>

fun roc_plots_loop ::
  "(string \<Rightarrow> bool) \<Rightarrow> predictor_module \<Rightarrow> string list \<Rightarrow> nat \<times> real \<Rightarrow>
   py_error + (nat \<times> real)" where
  "roc_plots_loop exists m [] st = Inr st"
| "roc_plots_loop exists m (testfile # rest) (count, total_roc_auc) =
     (if fold_usable exists m testfile
      then (case eval4 m testfile (fold_trainfile testfile) (fold_pfile m testfile) of
              Inl e \<Rightarrow> Inl e
            | Inr auc \<Rightarrow> roc_plots_loop exists m rest (count + 1, total_roc_auc + auc))
      else roc_plots_loop exists m rest (count, total_roc_auc))"

definition roc_plots ::
  "(string \<Rightarrow> bool) \<Rightarrow> predictor_module \<Rightarrow> string list \<Rightarrow> py_error + real" where
  "roc_plots exists m test_files =
     (case roc_plots_loop exists m test_files (0, 0) of
        Inl e \<Rightarrow> Inl e
      | Inr (count, total_roc_auc) \<Rightarrow>
          if count = 0 then Inl ZeroDivisionError
          else Inr (total_roc_auc / real count))"

text \<open>\<^verbatim>\<open>avg_conf_mat\<close>: integer counts per fold, divided by \<^verbatim>\<open>1.0*count\<close>.\<close>

fun avg_conf_mat_loop ::
  "(string \<Rightarrow> bool) \<Rightarrow> predictor_module \<Rightarrow> string list \<Rightarrow> nat \<times> int \<times> int \<times> int \<times> int \<Rightarrow>
   py_error + (nat \<times> int \<times> int \<times> int \<times> int)" where
  "avg_conf_mat_loop exists m [] st = Inr st"
| "avg_conf_mat_loop exists m (testfile # rest)
       (count, total_n_hit, total_n_false_alarm, total_n_miss, total_n_correct_rej) =
     (if fold_usable exists m testfile
      then (case eval5 m testfile (fold_trainfile testfile) (fold_pfile m testfile) of
              Inl e \<Rightarrow> Inl e
            | Inr (n_hit, n_false_alarm, n_miss, n_correct_rej) \<Rightarrow>
                avg_conf_mat_loop exists m rest
                  (count + 1, total_n_hit + n_hit, total_n_false_alarm + n_false_alarm,
                   total_n_miss + n_miss, total_n_correct_rej + n_correct_rej))
      else avg_conf_mat_loop exists m rest
             (count, total_n_hit, total_n_false_alarm, total_n_miss, total_n_correct_rej))"

definition avg_conf_mat ::
  "(string \<Rightarrow> bool) \<Rightarrow> predictor_module \<Rightarrow> string list \<Rightarrow>
   py_error + (real \<times> real \<times> real \<times> real)" where
  "avg_conf_mat exists m test_files =
     (case avg_conf_mat_loop exists m test_files (0, 0, 0, 0, 0) of
        Inl e \<Rightarrow> Inl e
      | Inr (count, total_n_hit, total_n_false_alarm, total_n_miss, total_n_correct_rej) \<Rightarrow>
          if 1.0 * real count = 0 then Inl ZeroDivisionError
          else Inr (real_of_int total_n_hit / (1.0 * real count),
                    real_of_int total_n_false_alarm / (1.0 * real count),
                    real_of_int total_n_miss / (1.0 * real count),
                    real_of_int total_n_correct_rej / (1.0 * real count)))"

text \<open>
  An example directory: three test files, the params file of fold 2 missing, and a
  predictor module with fixed results per fold.
\<close>

definition example_test_files :: "string list" where
  "example_test_files =
     [''./data/testing-data-1.csv'', ''./data/testing-data-2.csv'', ''./data/testing-data-3.csv'']"


definition example_eval1 :: "string \<Rightarrow> string \<Rightarrow> string \<Rightarrow> py_error + (real \<times> real)" where
  "example_eval1 testfile trainfile pfile =
     (if testfile = ''./data/testing-data-1.csv'' then Inr (1/10, 3/5)
      else if testfile = ''./data/testing-data-3.csv'' then Inr (3/10, 1/5)
      else Inl ValueError)"

definition example_eval3 ::
  "string \<Rightarrow> string \<Rightarrow> string \<Rightarrow> py_error + ((real \<times> real) \<times> (real \<times> real) \<times> (real \<times> real))" where
  "example_eval3 testfile trainfile pfile =
     (if testfile = ''./data/testing-data-1.csv'' then Inr ((1, 1/2), (1/2, 1), (2/3, 2/3))
      else if testfile = ''./data/testing-data-3.csv'' then Inr ((1/2, 1), (1, 1/2), (2/3, 2/3))
      else Inl ValueError)"

definition example_eval4 :: "string \<Rightarrow> string \<Rightarrow> string \<Rightarrow> py_error + real" where
  "example_eval4 testfile trainfile pfile = Inr (3/4)"

definition example_eval5 :: "string \<Rightarrow> string \<Rightarrow> string \<Rightarrow> py_error + (int \<times> int \<times> int \<times> int)" where
  "example_eval5 testfile trainfile pfile = Inr (5, 1, 2, 4)"

definition example_module :: predictor_module where
  "example_module =
     \<lparr>module_prefix = ''nnet'', eval1 = example_eval1, eval3 = example_eval3,
      eval4 = example_eval4, eval5 = example_eval5\<rparr>"

text \<open>The same directory with no params file at all: no fold is usable.\<close>

definition example_exists_no_params :: "string \<Rightarrow> bool" where
  "example_exists_no_params path =
     (path \<in> set [''./data/testing-data-1.csv'', ''./data/testing-data-2.csv'',
                  ''./data/testing-data-3.csv'',
                  ''./data/training-data-completed-1.csv'',
                  ''./data/training-data-completed-2.csv'',
                  ''./data/training-data-completed-3.csv''])"


section \<open>Pooled scoring (the script body of utils/aggregated_scores.py)\<close>

text \<open>
  scikit-learn's \<^verbatim>\<open>precision_score\<close>, \<^verbatim>\<open>recall_score\<close>, \<^verbatim>\<open>f1_score\<close> and
  \<^verbatim>\<open>roc_auc_score\<close> are library functions: the script is modelled for any four
  functions of their types, each of which may raise.
\<close>

record sklearn_metrics =
  precision_score :: "int list \<Rightarrow> int list \<Rightarrow> py_error + real"
  recall_score :: "int list \<Rightarrow> int list \<Rightarrow> py_error + real"
  f1_score :: "int list \<Rightarrow> int list \<Rightarrow> py_error + real"
  roc_auc_score :: "int list \<Rightarrow> real list \<Rightarrow> py_error + real"

definition precision_bootstrap ::
  "sklearn_metrics \<Rightarrow> int list \<Rightarrow> int list \<Rightarrow> real \<Rightarrow> nat \<Rightarrow> (nat \<Rightarrow> nat list) \<Rightarrow>
   py_error + (real \<times> real)" where
  "precision_bootstrap sk y_true y_pred pvalue iter rng =
     score_bootstrap (precision_score sk) y_true y_pred pvalue iter rng"

definition recall_bootstrap ::
  "sklearn_metrics \<Rightarrow> int list \<Rightarrow> int list \<Rightarrow> real \<Rightarrow> nat \<Rightarrow> (nat \<Rightarrow> nat list) \<Rightarrow>
   py_error + (real \<times> real)" where
  "recall_bootstrap sk y_true y_pred pvalue iter rng =
     score_bootstrap (recall_score sk) y_true y_pred pvalue iter rng"

definition f1_bootstrap ::
  "sklearn_metrics \<Rightarrow> int list \<Rightarrow> int list \<Rightarrow> real \<Rightarrow> nat \<Rightarrow> (nat \<Rightarrow> nat list) \<Rightarrow>
   py_error + (real \<times> real)" where
  "f1_bootstrap sk y_true y_pred pvalue iter rng =
     score_bootstrap (f1_score sk) y_true y_pred pvalue iter rng"

definition roc_bootstrap ::
  "sklearn_metrics \<Rightarrow> int list \<Rightarrow> real list \<Rightarrow> real \<Rightarrow> nat \<Rightarrow> (nat \<Rightarrow> nat list) \<Rightarrow>
   py_error + (real \<times> real)" where
  "roc_bootstrap sk y_true y_pred pvalue iter rng =
     score_bootstrap (roc_auc_score sk) y_true y_pred pvalue iter rng"

text \<open>\<^verbatim>\<open>pb = np.array([int(0.5 < x) for x in p])\<close>.\<close>

definition pb_of :: "real list \<Rightarrow> int list" where
  "pb_of p = map (\<lambda>x. if 0.5 < x then 1 else 0) p"

text \<open>
  One cell of a score line: the number \<^verbatim>\<open>"%.3f" % point\<close>, or in bootstrap mode the
  three numbers \<^verbatim>\<open>lo,point,hi\<close>. The rendering of a float as text is not modelled: a
  cell holds the numbers.
\<close>

datatype cell = Point real | Interval real real real

text \<open>
  The body of \<^verbatim>\<open>for score in scores\<close> for one score name; a name that is none of the
  five adds no cell. \<open>rng\<close> is the output of the generator that the bootstrap call of
  this cell creates.
\<close>

definition score_cell ::
  "sklearn_metrics \<Rightarrow> bool \<Rightarrow> real \<Rightarrow> nat \<Rightarrow> (nat \<Rightarrow> nat list) \<Rightarrow>
   int list \<Rightarrow> real list \<Rightarrow> int list \<Rightarrow> string \<Rightarrow> py_error + cell option" where
  "score_cell sk bootstrap pvalue iter rng y p pb score =
     (if score = ''precision'' then
        (case precision_score sk y pb of
           Inl e \<Rightarrow> Inl e
         | Inr precision \<Rightarrow>
             if bootstrap then
               (case precision_bootstrap sk y pb pvalue iter rng of
                  Inl e \<Rightarrow> Inl e
                | Inr (lo, hi) \<Rightarrow> Inr (Some (Interval lo precision hi)))
             else Inr (Some (Point precision)))
      else if score = ''recall'' then
        (case recall_score sk y pb of
           Inl e \<Rightarrow> Inl e
         | Inr recall \<Rightarrow>
             if bootstrap then
               (case recall_bootstrap sk y pb pvalue iter rng of
                  Inl e \<Rightarrow> Inl e
                | Inr (lo, hi) \<Rightarrow> Inr (Some (Interval lo recall hi)))
             else Inr (Some (Point recall)))
      else if score = ''f1'' then
        (case f1_score sk y pb of
           Inl e \<Rightarrow> Inl e
         | Inr f1 \<Rightarrow>
             if bootstrap then
               (case f1_bootstrap sk y pb pvalue iter rng of
                  Inl e \<Rightarrow> Inl e
                | Inr (lo, hi) \<Rightarrow> Inr (Some (Interval lo f1 hi)))
             else Inr (Some (Point f1)))
      else if score = ''brier'' then
        (case brier_score_loss y p None of
           Inl e \<Rightarrow> Inl e
         | Inr brier \<Rightarrow>
             if bootstrap then
               (case brier_bootstrap y p pvalue iter rng of
                  Inl e \<Rightarrow> Inl e
                | Inr (lo, hi) \<Rightarrow> Inr (Some (Interval lo brier hi)))
             else Inr (Some (Point brier)))
      else if score = ''auc'' then
        (case roc_auc_score sk y p of
           Inl e \<Rightarrow> Inl e
         | Inr auc \<Rightarrow>
             if bootstrap then
               (case roc_bootstrap sk y p pvalue iter rng of
                  Inl e \<Rightarrow> Inl e
                | Inr (lo, hi) \<Rightarrow> Inr (Some (Interval lo auc hi)))
             else Inr (Some (Point auc)))
      else Inr None)"

text \<open>
  The loop \<^verbatim>\<open>for score in scores\<close>; \<open>rngs j\<close> is the generator output for the score at
  position \<open>j\<close>.
\<close>

fun score_cells ::
  "sklearn_metrics \<Rightarrow> bool \<Rightarrow> real \<Rightarrow> nat \<Rightarrow> (nat \<Rightarrow> nat \<Rightarrow> nat list) \<Rightarrow>
   int list \<Rightarrow> real list \<Rightarrow> int list \<Rightarrow> nat \<Rightarrow> string list \<Rightarrow> cell list \<Rightarrow>
   py_error + cell list" where
  "score_cells sk bootstrap pvalue iter rngs y p pb j [] score_line = Inr score_line"
| "score_cells sk bootstrap pvalue iter rngs y p pb j (score # rest) score_line =
     (case score_cell sk bootstrap pvalue iter (rngs j) y p pb score of
        Inl e \<Rightarrow> Inl e
      | Inr None \<Rightarrow> score_cells sk bootstrap pvalue iter rngs y p pb (j + 1) rest score_line
      | Inr (Some c) \<Rightarrow>
          score_cells sk bootstrap pvalue iter rngs y p pb (j + 1) rest (score_line @ [c]))"



text \<open>
  The script's globals that the scoring loop reads: the command-line arguments (with
  \<^verbatim>\<open>pvalue = 1.0 - confidence / 100.0\<close>) and the three tables read from the alias
  and options files.
\<close>

record config =
  index_mode :: string
  scores :: "string list"
  f1_min :: real
  extra_tests :: "string list"
  excluded_predictors :: "string list"
  bootstrap :: bool
  pvalue :: real
  iter :: nat
  var_labels :: "string \<rightharpoonup> string"
  index_names :: "string list"
  index_acron :: "string \<rightharpoonup> string"

text \<open>
  What the loop takes from outside the script: Python's \<^verbatim>\<open>float\<close> on a string; the
  rows \<^verbatim>\<open>(Y, P)\<close> that \<^verbatim>\<open>pd.read_csv("./out/predictions.csv")\<close> delivers after
  \<^verbatim>\<open>utils/aggregate.py\<close> has run for a model id and a predictor; the metrics; and
  the generator output \<open>rngs k j\<close> for ranking line \<open>k\<close> and score position \<open>j\<close>.
\<close>

record environment =
  py_float :: "string \<Rightarrow> py_error + real"
  read_predictions :: "string \<Rightarrow> string \<Rightarrow> py_error + (int \<times> real) list"
  sklearn :: sklearn_metrics
  rngs :: "nat \<Rightarrow> nat \<Rightarrow> nat \<Rightarrow> nat list"

text \<open>
  The state the loop changes: the score lines collected so far, and the predictors
  for which the aggregation script was run (model id and predictor name).
\<close>

record score_line =
  line_head :: string
  line_cells :: "cell list"

record loop_state =
  score_lines :: "score_line list"
  aggregate_calls :: "(string \<times> string) list"

text \<open>
  In IMP mode: \<^verbatim>\<open>idx = ""\<close>, then \<^verbatim>\<open>for idx in index_names: if idx in mdl_str: break\<close>.
  Without a match the loop variable keeps the last name.
\<close>

fun find_idx :: "string list \<Rightarrow> string \<Rightarrow> string \<Rightarrow> string" where
  "find_idx [] mdl_str idx = idx"
| "find_idx (name # rest) mdl_str idx =
     (if sublist name mdl_str then name else find_idx rest mdl_str name)"

text \<open>\<^verbatim>\<open>for ex in extra_tests: if not ex in path_pieces: missing = True\<close>.\<close>

fun extra_missing :: "string list \<Rightarrow> string list \<Rightarrow> bool \<Rightarrow> bool" where
  "extra_missing [] path_pieces missing = missing"
| "extra_missing (ex # rest) path_pieces missing =
     extra_missing rest path_pieces (if ex \<notin> set path_pieces then True else missing)"

text \<open>
  Lines 251 to 274: the line is split, and dropped (\<open>None\<close>) when the predictor is
  excluded, when its index name is unknown, or when an extra test is missing from the
  model path.
\<close>

definition passes_filters :: "config \<Rightarrow> string \<Rightarrow> py_error + (string \<times> string \<times> string) option" where
  "passes_filters cfg line0 =
     (let line = py_strip line0; parts = py_split line CHR '' '' in
      case py_nth parts 1 of
        Inl e \<Rightarrow> Inl e
      | Inr mdl_str \<Rightarrow>
          (case py_nth parts 2 of
             Inl e \<Rightarrow> Inl e
           | Inr pred \<Rightarrow>
               if pred \<in> set (excluded_predictors cfg) then Inr None
               else
                 (let idx = (if index_mode cfg = ''PRED'' then pred
                             else find_idx (index_names cfg) mdl_str [])
                  in if idx \<notin> set (index_names cfg) then Inr None
                     else if extra_tests cfg \<noteq> []
                             \<and> extra_missing (extra_tests cfg) (py_split mdl_str CHR ''/'') False
                     then Inr None
                     else Inr (Some (mdl_str, pred, idx)))))"

text \<open>Lines 276 to 279: the variable list and the two F1 fields of the line.\<close>

definition parse_fields ::
  "(string \<Rightarrow> py_error + real) \<Rightarrow> string \<Rightarrow> py_error + (string list \<times> real \<times> real)" where
  "parse_fields to_float line0 =
     (let line = py_strip line0; parts = py_split line CHR '' '' in
      case py_nth parts 3 of
        Inl e \<Rightarrow> Inl e
      | Inr vars \<Rightarrow>
          (case py_nth parts 4 of
             Inl e \<Rightarrow> Inl e
           | Inr s4 \<Rightarrow>
               (case to_float s4 of
                  Inl e \<Rightarrow> Inl e
                | Inr f1_mean \<Rightarrow>
                    (case py_nth parts 5 of
                       Inl e \<Rightarrow> Inl e
                     | Inr s5 \<Rightarrow>
                         (case to_float s5 of
                            Inl e \<Rightarrow> Inl e
                          | Inr f1_std \<Rightarrow> Inr (py_split vars CHR '','', f1_mean, f1_std))))))"

text \<open>Lines 251 to 281: the predictors whose predictions will be pooled.\<close>

definition select_line ::
  "config \<Rightarrow> (string \<Rightarrow> py_error + real) \<Rightarrow> string \<Rightarrow>
   py_error + (string \<times> string \<times> string \<times> string list) option" where
  "select_line cfg to_float line =
     (case passes_filters cfg line of
        Inl e \<Rightarrow> Inl e
      | Inr None \<Rightarrow> Inr None
      | Inr (Some (mdl_str, pred, idx)) \<Rightarrow>
          (case parse_fields to_float line of
             Inl e \<Rightarrow> Inl e
           | Inr (vlist, f1_mean, f1_std) \<Rightarrow>
               if f1_min cfg \<le> f1_mean then Inr (Some (mdl_str, pred, idx, vlist))
               else Inr None))"

text \<open>\<^verbatim>\<open>[var_labels[v] for v in vlist]\<close>: KeyError on an unknown variable.\<close>

fun lookup_labels :: "(string \<rightharpoonup> string) \<Rightarrow> string list \<Rightarrow> py_error + string list" where
  "lookup_labels labels [] = Inr []"
| "lookup_labels labels (v # vs) =
     (case labels v of
        None \<Rightarrow> Inl KeyError
      | Some l \<Rightarrow> (case lookup_labels labels vs of Inl e \<Rightarrow> Inl e | Inr ls \<Rightarrow> Inr (l # ls)))"

text \<open>
  Lines 282 to 333, the body of \<^verbatim>\<open>if f1_min <= f1_mean\<close>: the aggregation script is
  run, its predictions are read, and unless there are none, a score line is built and
  appended.
\<close>

definition score_predictor ::
  "config \<Rightarrow> environment \<Rightarrow> nat \<Rightarrow> string \<Rightarrow> string \<Rightarrow> string \<Rightarrow> string list \<Rightarrow>
   loop_state \<Rightarrow> py_error + loop_state" where
  "score_predictor cfg env k mdl_str pred idx vlist st =
     (let id = path_tail mdl_str;
          st1 = st\<lparr>aggregate_calls := aggregate_calls st @ [(id, pred)]\<rparr>
      in case read_predictions env id pred of
           Inl e \<Rightarrow> Inl e
         | Inr df \<Rightarrow>
             (let y = map fst df; p = map snd df in
              if length y = 0 then Inr st1
              else
                (let pb = pb_of p in
                 case index_acron cfg idx of
                   None \<Rightarrow> Inl KeyError
                 | Some acron \<Rightarrow>
                     (case lookup_labels (var_labels cfg) vlist of
                        Inl e \<Rightarrow> Inl e
                      | Inr labels \<Rightarrow>
                          (case score_cells (sklearn env) (bootstrap cfg) (pvalue cfg) (iter cfg)
                                  (rngs env k) y p pb 0 (scores cfg) [] of
                             Inl e \<Rightarrow> Inl e
                           | Inr cells \<Rightarrow>
                               Inr (st1\<lparr>score_lines := score_lines st1 @
                                      [\<lparr>line_head = acron @ [CHR 0x09] @ py_join '', '' labels,
                                        line_cells = cells\<rparr>]\<rparr>))))))"

definition process_line ::
  "config \<Rightarrow> environment \<Rightarrow> nat \<Rightarrow> string \<Rightarrow> loop_state \<Rightarrow> py_error + loop_state" where
  "process_line cfg env k line st =
     (case select_line cfg (py_float env) line of
        Inl e \<Rightarrow> Inl e
      | Inr None \<Rightarrow> Inr st
      | Inr (Some (mdl_str, pred, idx, vlist)) \<Rightarrow>
          score_predictor cfg env k mdl_str pred idx vlist st)"

text \<open>\<^verbatim>\<open>for line in lines\<close>, over the lines of the ranking file.\<close>

fun main_loop ::
  "config \<Rightarrow> environment \<Rightarrow> nat \<Rightarrow> string list \<Rightarrow> loop_state \<Rightarrow> py_error + loop_state" where
  "main_loop cfg env k [] st = Inr st"
| "main_loop cfg env k (line # rest) st =
     (case process_line cfg env k line st of
        Inl e \<Rightarrow> Inl e
      | Inr st' \<Rightarrow> main_loop cfg env (k + 1) rest st')"

section \<open>The metrics of the specification\<close>

text \<open>
  Modelled from the spec: scikit-learn's \<^verbatim>\<open>precision_score\<close>, \<^verbatim>\<open>recall_score\<close>,
  \<^verbatim>\<open>f1_score\<close> and \<^verbatim>\<open>roc_auc_score\<close> are not in the repository. The specification
  defines them on the confusion counts of the predicted against the true labels: hit
  (true positive), false alarm (false positive) and miss (false negative); precision is
  \<open>hit / (hit + false_alarm)\<close> and recall is \<open>hit / (hit + miss)\<close>, each 0 when its
  denominator is 0; F1 is their harmonic mean, 0 when both are 0; the AUC is the
  probability that a positive case scores higher than a negative one (the normalized
  Mann-Whitney statistic, a tie counting one half) and fails on a single class.
\<close>

definition n_hit :: "int list \<Rightarrow> int list \<Rightarrow> nat" where
  "n_hit y_true y_pred = length (filter (\<lambda>(t, q). t = 1 \<and> q = 1) (zip y_true y_pred))"

definition n_false_alarm :: "int list \<Rightarrow> int list \<Rightarrow> nat" where
  "n_false_alarm y_true y_pred = length (filter (\<lambda>(t, q). t = 0 \<and> q = 1) (zip y_true y_pred))"

definition n_miss :: "int list \<Rightarrow> int list \<Rightarrow> nat" where
  "n_miss y_true y_pred = length (filter (\<lambda>(t, q). t = 1 \<and> q = 0) (zip y_true y_pred))"

definition spec_precision :: "int list \<Rightarrow> int list \<Rightarrow> real" where
  "spec_precision y_true y_pred =
     (let hit = n_hit y_true y_pred; false_alarm = n_false_alarm y_true y_pred
      in if hit + false_alarm = 0 then 0 else real hit / real (hit + false_alarm))"

definition spec_recall :: "int list \<Rightarrow> int list \<Rightarrow> real" where
  "spec_recall y_true y_pred =
     (let hit = n_hit y_true y_pred; miss = n_miss y_true y_pred
      in if hit + miss = 0 then 0 else real hit / real (hit + miss))"

definition spec_f1 :: "int list \<Rightarrow> int list \<Rightarrow> real" where
  "spec_f1 y_true y_pred =
     (let precision = spec_precision y_true y_pred; recall = spec_recall y_true y_pred
      in if precision = 0 \<and> recall = 0 then 0
         else 2 * precision * recall / (precision + recall))"

definition spec_roc_auc :: "int list \<Rightarrow> real list \<Rightarrow> py_error + real" where
  "spec_roc_auc y_true y_prob =
     (let pos = map snd (filter (\<lambda>(t, q). t = 1) (zip y_true y_prob));
          neg = map snd (filter (\<lambda>(t, q). t \<noteq> 1) (zip y_true y_prob))
      in if pos = [] \<or> neg = [] then Inl ValueError
         else Inr (sum_list (map (\<lambda>a. sum_list (map (\<lambda>b. if b < a then 1
                                                       else if a = b then 1 / 2 else 0) neg)) pos)
                   / real (length pos * length neg)))"

definition spec_metrics :: sklearn_metrics where
  "spec_metrics =
     \<lparr>precision_score = (\<lambda>y_true y_pred. Inr (spec_precision y_true y_pred)),
      recall_score = (\<lambda>y_true y_pred. Inr (spec_recall y_true y_pred)),
      f1_score = (\<lambda>y_true y_pred. Inr (spec_f1 y_true y_pred)),
      roc_auc_score = spec_roc_auc\<rparr>"

section \<open>An example ranking\<close>

text \<open>
  One neural-network predictor with mean F1 exactly 0.9 under the default threshold
  0.9, three pooled predictions, and the default command line otherwise (the default
  of \<^verbatim>\<open>--extra_tests\<close> splits to one empty string, which an absolute model path
  contains as its first piece).
\<close>

definition example_config :: config where
  "example_config =
     \<lparr>index_mode = ''PRED'',
      scores = [''precision'', ''recall'', ''f1'', ''brier'', ''auc''],
      f1_min = 0.9,
      extra_tests = [[]],
      excluded_predictors = [''lreg'', ''scikit_randf''],
      bootstrap = False,
      pvalue = 1.0 - 95 / 100.0,
      iter = 1000,
      var_labels = [''PCR'' \<mapsto> ''PCR'', ''TEMP'' \<mapsto> ''Temperature''],
      index_names = [''nnet''],
      index_acron = [''nnet'' \<mapsto> ''ANN'']\<rparr>"

definition example_float :: "string \<Rightarrow> py_error + real" where
  "example_float s =
     (if s = ''0.9'' then Inr 0.9
      else if s = ''0.01'' then Inr 0.01
      else if s = ''0.95'' then Inr 0.95
      else Inl ValueError)"

definition example_read :: "string \<Rightarrow> string \<Rightarrow> py_error + (int \<times> real) list" where
  "example_read mdl_id pred =
     (if mdl_id = ''12'' \<and> pred = ''nnet'' then Inr [(0, 1/4), (1, 3/4), (1, 1/2)]
      else Inr [])"

definition example_rngs :: "nat \<Rightarrow> nat \<Rightarrow> nat \<Rightarrow> nat list" where
  "example_rngs k j i = [[0, 1, 2], [1, 1, 2], [0, 0, 1], [0, 2, 2]] ! (i mod 4)"

definition example_environment :: environment where
  "example_environment =
     \<lparr>py_float = example_float, read_predictions = example_read,
      sklearn = spec_metrics, rngs = example_rngs\<rparr>"

definition example_line :: string where
  "example_line = ''1 /data/models/12 nnet PCR,TEMP 0.9 0.01'' @ [CHR 0x0A]"

definition example_line_empty :: string where
  "example_line_empty = ''2 /data/models/13 nnet PCR 0.95 0.01'' @ [CHR 0x0A]"

definition initial_state :: loop_state where
  "initial_state = \<lparr>score_lines = [], aggregate_calls = []\<rparr>"

section \<open>Facts about the primitives\<close>


lemma length_np_unique: "length (np_unique a) = card (set a)"
  by (simp add: np_unique_def length_remdups_card_conv)







section \<open>The bootstrap loop keeps the scores of the two-class resamples\<close>










section \<open>The Brier score raises exactly on invalid input\<close>


lemma positive_indicator_range: "set (positive_indicator y_true pos_label) \<subseteq> {0, 1}"
  by (auto simp: positive_indicator_def)

lemma card_indicator_le: "card (set (positive_indicator y_true pos_label)) \<le> 2"
proof -
  have "card (set (positive_indicator y_true pos_label)) \<le> card {0, 1::int}"
    by (intro card_mono positive_indicator_range) simp
  then show ?thesis by simp
qed

lemma np_unique_two_labels:
  assumes "set ys \<subseteq> {0, 1::int}" and "card (set ys) = 2"
  shows "np_unique ys = [0, 1]"
proof -
  have "set ys = {0, 1}"
    using assms by (intro card_subset_eq) simp_all
  then have "sorted_list_of_set (set ys) = [0, 1]" by simp
  then show ?thesis
    by (simp add: np_unique_def sorted_list_of_set_sort_remdups)
qed

lemma label_binarize_col_indicator:
  assumes "set ys \<subseteq> {0, 1::int}"
  shows "label_binarize_col ys [0, 1] = ys"
  using assms by (induction ys) (auto simp: label_binarize_col_def)

lemma check_consistent_length_same: "check_consistent_length [n, n] = Inr ()"
  by (simp add: check_consistent_length_def np_unique_def)

lemma check_consistent_length_error:
  "check_consistent_length ns = Inl e \<longleftrightarrow> 1 < length (np_unique ns) \<and> e = ValueError"
  by (auto simp: check_consistent_length_def Let_def)

lemma sum_list_map2_nth:
  "length xs = length ys \<Longrightarrow>
   sum_list (map2 f xs ys) = (\<Sum>i<length ys. f (xs ! i) (ys ! i))"
proof -
  assume l: "length xs = length ys"
  have "sum_list (map2 f xs ys) = (\<Sum>i = 0..<length (map2 f xs ys). map2 f xs ys ! i)"
    by (rule sum_list_sum_nth)
  also have "\<dots> = (\<Sum>i<length ys. f (xs ! i) (ys ! i))"
    using l by (intro sum.cong) (auto simp: lessThan_atLeast0)
  finally show ?thesis .
qed

lemma check_binary_indicator:
  assumes "length ys = length y_prob" and "set ys \<subseteq> {0, 1}"
  shows "check_binary_probabilistic_predictions ys y_prob =
           (if card (set ys) < 2 \<or> (\<exists>q \<in> set y_prob. q < 0 \<or> 1 < q)
            then Inl ValueError else Inr ys)"
proof (cases "card (set ys) = 2")
  case True
  then have ne: "ys \<noteq> []" by auto
  then have nep: "y_prob \<noteq> []" using assms(1) by auto
  have u: "np_unique ys = [0, 1]" using assms(2) True by (rule np_unique_two_labels)
  have mx: "1 < Max (set y_prob) \<longleftrightarrow> (\<exists>q \<in> set y_prob. 1 < q)"
    using nep by (simp add: Max_gr_iff)
  have mn: "Min (set y_prob) < 0 \<longleftrightarrow> (\<exists>q \<in> set y_prob. q < 0)"
    using nep by (simp add: Min_less_iff)
  show ?thesis
    using True nep assms
    by (auto simp: check_binary_probabilistic_predictions_def check_consistent_length_same
        u np_max_def np_min_def mx mn label_binarize_col_indicator)
next
  case False
  moreover have "card (set ys) \<le> card {0, 1::int}"
    using assms(2) by (intro card_mono) simp_all
  ultimately have lt: "card (set ys) < 2" by simp
  then show ?thesis
    using assms(1)
    by (simp add: check_binary_probabilistic_predictions_def check_consistent_length_same
        length_np_unique)
qed

lemma brier_pos_label:
  "(case pos_label of None \<Rightarrow> np_max y_true | Some l \<Rightarrow> Inr l) =
     (if pos_label = None \<and> y_true = [] then Inl ValueError
      else Inr (case pos_label of None \<Rightarrow> Max (set y_true) | Some l \<Rightarrow> l))"
  by (simp add: np_max_def split: option.splits)

lemma brier_score_loss_cases:
  assumes "length y_true = length y_prob"
  shows "brier_score_loss y_true y_prob pos_label =
     (if card (set (positive_indicator y_true pos_label)) < 2
         \<or> (\<exists>q \<in> set y_prob. q < 0 \<or> 1 < q)
      then Inl ValueError
      else Inr ((\<Sum>i<length y_prob.
                   (real_of_int (positive_indicator y_true pos_label ! i) - y_prob ! i)\<^sup>2)
                / real (length y_prob)))"
proof (cases "pos_label = None \<and> y_true = []")
  case True
  then show ?thesis
    by (simp add: brier_score_loss_def np_max_def positive_indicator_def)
next
  case False
  let ?ind = "positive_indicator y_true pos_label"
  have len: "length ?ind = length y_prob"
    using assms by (simp add: positive_indicator_def)
  have chk: "check_binary_probabilistic_predictions ?ind y_prob =
           (if card (set ?ind) < 2 \<or> (\<exists>q \<in> set y_prob. q < 0 \<or> 1 < q)
            then Inl ValueError else Inr ?ind)"
    using len positive_indicator_range by (rule check_binary_indicator)
  have "brier_score_loss y_true y_prob pos_label =
      (case check_binary_probabilistic_predictions ?ind y_prob of
         Inl e \<Rightarrow> Inl e
       | Inr y_true2 \<Rightarrow>
           Inr (np_average (map2 (\<lambda>t p. (real_of_int t - p)\<^sup>2) y_true2 y_prob)))"
    using False
    by (cases pos_label)
      (simp_all add: brier_score_loss_def np_max_def positive_indicator_def Let_def)
  then show ?thesis
    using chk len by (simp add: np_average_def sum_list_map2_nth)
qed

text \<open>
  C7. On parallel arrays, \<open>brier_score_loss\<close> raises (a ValueError) if and only if the
  true labels, mapped to 1 where they equal the positive label (by default the maximum
  label present) and to 0 elsewhere, have fewer than two distinct values, or some
  probability lies outside \<open>[0, 1]\<close>; otherwise it returns the mean of the squared
  differences between the mapped labels and the probabilities. On the one-class input
  \<open>[1, 1, 1]\<close> it raises for any probabilities.
\<close>

theorem brier_score_loss_raises_iff_invalid:
  "(length y_true = length y_prob \<longrightarrow>
      brier_score_loss y_true y_prob pos_label =
        (if card (set (positive_indicator y_true pos_label)) < 2
            \<or> (\<exists>q \<in> set y_prob. q < 0 \<or> 1 < q)
         then Inl ValueError
         else Inr ((\<Sum>i<length y_prob.
                      (real_of_int (positive_indicator y_true pos_label ! i) - y_prob ! i)\<^sup>2)
                   / real (length y_prob))))
   \<and> brier_score_loss [1, 1, 1 :: int] any_prob None = Inl ValueError"
proof (intro conjI impI)
  assume "length y_true = length y_prob"
  then show "brier_score_loss y_true y_prob pos_label =
        (if card (set (positive_indicator y_true pos_label)) < 2
            \<or> (\<exists>q \<in> set y_prob. q < 0 \<or> 1 < q)
         then Inl ValueError
         else Inr ((\<Sum>i<length y_prob.
                      (real_of_int (positive_indicator y_true pos_label ! i) - y_prob ! i)\<^sup>2)
                   / real (length y_prob)))"
    by (rule brier_score_loss_cases)
next
  show "brier_score_loss [1, 1, 1 :: int] any_prob None = Inl ValueError"
    by (simp add: brier_score_loss_def np_max_def check_binary_probabilistic_predictions_def
        check_consistent_length_error np_unique_def Let_def split: sum.split)
qed

theorem brier_score_loss_raises_iff_invalid_witness:
  "length [0, 1, 1, 0 :: int] = length [1/10, 9/10, 4/5, 3/10 :: real]
   \<and> brier_score_loss [0, 1, 1, 0 :: int] [1/10, 9/10, 4/5, 3/10] None = Inr (3/80)
   \<and> length [0, 1 :: int] = length [1/2, 2 :: real]
   \<and> brier_score_loss [0, 1 :: int] [1/2, 2] None = Inl ValueError"
proof -
  have l: "length [0, 1, 1, 0 :: int] = length [1/10, 9/10, 4/5, 3/10 :: real]"
    and l': "length [0, 1 :: int] = length [1/2, 2 :: real]" by simp_all
  have "brier_score_loss [0, 1, 1, 0 :: int] [1/10, 9/10, 4/5, 3/10] None = Inr (3/80)"
    using brier_score_loss_raises_iff_invalid
            [of "[0, 1, 1, 0 :: int]" "[1/10, 9/10, 4/5, 3/10]" None] l
    by (simp add: positive_indicator_def card_insert_if lessThan_nat_numeral
        lessThan_Suc power2_eq_square)
  moreover have "brier_score_loss [0, 1 :: int] [1/2, 2] None = Inl ValueError"
    using brier_score_loss_raises_iff_invalid [of "[0, 1 :: int]" "[1/2, 2]" None] l'
    by (simp add: positive_indicator_def)
  ultimately show ?thesis by simp
qed


section \<open>The aggregation loops count and sum the usable folds\<close>





lemma roc_plots_loop_unusable:
  "\<forall>t \<in> set test_files. \<not> fold_usable ex m t \<Longrightarrow> roc_plots_loop ex m test_files st = Inr st"
  by (induction test_files arbitrary: st) (auto split: prod.splits)

lemma avg_conf_mat_loop_unusable:
  "\<forall>t \<in> set test_files. \<not> fold_usable ex m t \<Longrightarrow> avg_conf_mat_loop ex m test_files st = Inr st"
proof (induction test_files arbitrary: st)
  case Nil
  then show ?case by simp
next
  case (Cons t rest)
  obtain c a b d e where st: "st = (c, a, b, d, e)" by (cases st) auto
  with Cons show ?case by simp
qed

lemma avg_report_loop_unusable:
  "\<forall>t \<in> set test_files. \<not> fold_usable ex m t \<Longrightarrow> avg_report_loop ex m test_files st = Inr st"
proof (induction test_files arbitrary: st)
  case Nil
  then show ?case by simp
next
  case (Cons t rest)
  obtain c a b d where st: "st = (c, a, b, d)" by (cases st) auto
  with Cons show ?case by simp
qed

lemma avg_cal_dis_loop_unusable:
  "\<forall>t \<in> set test_files. \<not> fold_usable ex m t \<Longrightarrow> avg_cal_dis_loop ex m test_files st = Inr st"
proof (induction test_files arbitrary: st)
  case Nil
  then show ?case by simp
next
  case (Cons t rest)
  obtain c a b where st: "st = (c, a, b)" by (cases st) auto
  with Cons show ?case by simp
qed


lemma example_no_params_unusable:
  "\<forall>t \<in> set example_test_files. \<not> fold_usable example_exists_no_params example_module t"
  by code_simp



text \<open>
  C3 (as stated, false). With no usable fold the aggregation functions divide by the
  zero count: the failure is Python's ZeroDivisionError, the generic division failure
  that the claim excludes; the repository defines no error of its own for this case.
\<close>

theorem no_usable_folds_counterexample:
  "avg_report example_exists_no_params example_module example_test_files = Inl ZeroDivisionError
   \<and> avg_cal_dis example_exists_no_params example_module example_test_files
       = Inl ZeroDivisionError"
  by (simp add: avg_report_def avg_cal_dis_def
      avg_report_loop_unusable [OF example_no_params_unusable]
      avg_cal_dis_loop_unusable [OF example_no_params_unusable])

text \<open>
  C3 (amended). When no candidate fold has all three artifacts, each mean-based
  aggregation (calibration/discrimination, precision/recall/F1, confusion counts,
  ROC AUC) fails with Python's ZeroDivisionError, raised by the division by the zero
  count.
\<close>

theorem no_usable_folds_zero_division:
  assumes "\<forall>t \<in> set test_files. \<not> fold_usable ex m t"
  shows "avg_cal_dis ex m test_files = Inl ZeroDivisionError
       \<and> avg_report ex m test_files = Inl ZeroDivisionError
       \<and> avg_conf_mat ex m test_files = Inl ZeroDivisionError
       \<and> roc_plots ex m test_files = Inl ZeroDivisionError"
  using assms
  by (simp add: avg_cal_dis_def avg_report_def avg_conf_mat_def roc_plots_def
      avg_cal_dis_loop_unusable avg_report_loop_unusable avg_conf_mat_loop_unusable
      roc_plots_loop_unusable)

theorem no_usable_folds_zero_division_witness:
  "filter (fold_usable example_exists_no_params example_module) example_test_files = []
   \<and> avg_cal_dis example_exists_no_params example_module example_test_files
       = Inl ZeroDivisionError
   \<and> avg_report example_exists_no_params example_module example_test_files
       = Inl ZeroDivisionError
   \<and> avg_conf_mat example_exists_no_params example_module example_test_files
       = Inl ZeroDivisionError
   \<and> roc_plots example_exists_no_params example_module example_test_files
       = Inl ZeroDivisionError"
  using example_no_params_unusable
    no_usable_folds_zero_division [OF example_no_params_unusable]
  by (simp add: filter_empty_conv)

section \<open>The pooled scoring loop\<close>

lemma score_predictor_logs_call:
  "score_predictor cfg env k mdl_str pred idx vlist st = Inr st' \<Longrightarrow>
   aggregate_calls st' = aggregate_calls st @ [(path_tail mdl_str, pred)]"
  by (auto simp: score_predictor_def Let_def split: sum.splits if_splits option.splits)

lemma select_line_cases:
  assumes "passes_filters cfg line = Inr (Some (mdl_str, pred, idx))"
    and "parse_fields to_float line = Inr (vlist, f1_mean, f1_std)"
  shows "select_line cfg to_float line =
           Inr (if f1_min cfg \<le> f1_mean then Some (mdl_str, pred, idx, vlist) else None)"
  using assms by (simp add: select_line_def)

lemma example_line_passes:
  "passes_filters example_config example_line = Inr (Some (''/data/models/12'', ''nnet'', ''nnet''))"
  by code_simp

lemma example_line_fields:
  "parse_fields example_float example_line = Inr ([''PCR'', ''TEMP''], 0.9, 0.01)"
  by code_simp

lemma example_line_scored:
  "score_predictor example_config example_environment 0 ''/data/models/12'' ''nnet'' ''nnet''
     [''PCR'', ''TEMP''] initial_state =
   Inr \<lparr>score_lines =
          [\<lparr>line_head = ''ANN'' @ [CHR 0x09] @ ''PCR, Temperature'',
            line_cells = [Point 1, Point (1/2), Point (2/3), Point (1/8), Point 1]\<rparr>],
        aggregate_calls = [(''12'', ''nnet'')]\<rparr>"
  by code_simp

text \<open>
  C4 (as stated, false). The example predictor has mean F1 0.9, equal to the threshold
  0.9, and is pooled: the aggregation script runs for it and its score line is
  emitted. The guard of the script is \<^verbatim>\<open>f1_min <= f1_mean\<close>.
\<close>

theorem f1_threshold_counterexample:
  "f1_min example_config = 0.9
   \<and> parse_fields example_float example_line = Inr ([''PCR'', ''TEMP''], 0.9, 0.01)
   \<and> process_line example_config example_environment 0 example_line initial_state =
       Inr \<lparr>score_lines =
              [\<lparr>line_head = ''ANN'' @ [CHR 0x09] @ ''PCR, Temperature'',
                line_cells = [Point 1, Point (1/2), Point (2/3), Point (1/8), Point 1]\<rparr>],
            aggregate_calls = [(''12'', ''nnet'')]\<rparr>"
proof -
  have "select_line example_config example_float example_line =
      Inr (Some (''/data/models/12'', ''nnet'', ''nnet'', [''PCR'', ''TEMP'']))"
    using select_line_cases [OF example_line_passes example_line_fields]
    by (simp add: example_config_def)
  then have "process_line example_config example_environment 0 example_line initial_state =
      score_predictor example_config example_environment 0 ''/data/models/12'' ''nnet'' ''nnet''
        [''PCR'', ''TEMP''] initial_state"
    by (simp add: process_line_def example_environment_def)
  then show ?thesis
    using example_line_fields example_line_scored by (simp add: example_config_def)
qed

text \<open>
  C4 (amended). For a ranking line that passes the exclusion, index-name and extra-test
  filters and whose F1 fields parse, the predictor's predictions are pooled (the
  aggregation script is run for it and the scoring body is entered) if and only if the
  minimum-F1 threshold is less than or equal to its mean F1; a predictor whose F1
  equals the threshold is included.
\<close>

theorem f1_threshold_inclusive:
  assumes "passes_filters cfg line = Inr (Some (mdl_str, pred, idx))"
    and "parse_fields (py_float env) line = Inr (vlist, f1_mean, f1_std)"
  shows "select_line cfg (py_float env) line =
           Inr (if f1_min cfg \<le> f1_mean then Some (mdl_str, pred, idx, vlist) else None)
       \<and> process_line cfg env k line st =
           (if f1_min cfg \<le> f1_mean then score_predictor cfg env k mdl_str pred idx vlist st
            else Inr st)
       \<and> (\<forall>st'. process_line cfg env k line st = Inr st' \<longrightarrow>
             (aggregate_calls st' = aggregate_calls st @ [(path_tail mdl_str, pred)]
                \<longleftrightarrow> f1_min cfg \<le> f1_mean))"
proof -
  have sel: "select_line cfg (py_float env) line =
           Inr (if f1_min cfg \<le> f1_mean then Some (mdl_str, pred, idx, vlist) else None)"
    using assms by (rule select_line_cases)
  then have proc: "process_line cfg env k line st =
           (if f1_min cfg \<le> f1_mean then score_predictor cfg env k mdl_str pred idx vlist st
            else Inr st)"
    by (simp add: process_line_def)
  have "aggregate_calls st' = aggregate_calls st @ [(path_tail mdl_str, pred)]
          \<longleftrightarrow> f1_min cfg \<le> f1_mean"
    if "process_line cfg env k line st = Inr st'" for st'
  proof (cases "f1_min cfg \<le> f1_mean")
    case True
    with proc that have "score_predictor cfg env k mdl_str pred idx vlist st = Inr st'" by simp
    then show ?thesis using True by (simp add: score_predictor_logs_call)
  next
    case False
    with proc that have "st' = st" by simp
    then show ?thesis using False by simp
  qed
  with sel proc show ?thesis by blast
qed

theorem f1_threshold_inclusive_witness:
  "passes_filters example_config example_line =
     Inr (Some (''/data/models/12'', ''nnet'', ''nnet''))
   \<and> parse_fields (py_float example_environment) example_line =
       Inr ([''PCR'', ''TEMP''], 0.9, 0.01)
   \<and> select_line example_config (py_float example_environment) example_line =
       Inr (Some (''/data/models/12'', ''nnet'', ''nnet'', [''PCR'', ''TEMP'']))
   \<and> process_line example_config example_environment 0 example_line initial_state =
       score_predictor example_config example_environment 0 ''/data/models/12'' ''nnet''
         ''nnet'' [''PCR'', ''TEMP''] initial_state"
proof -
  have f: "parse_fields (py_float example_environment) example_line =
       Inr ([''PCR'', ''TEMP''], 0.9, 0.01)"
    using example_line_fields by (simp add: example_environment_def)
  show ?thesis
    using example_line_passes f
      f1_threshold_inclusive [OF example_line_passes f, of 0 initial_state]
    by (simp add: example_config_def)
qed



text \<open>
  C6. The binarized prediction of a case is 1 exactly when its probability is strictly
  greater than 0.5, and 0 otherwise. For the labels \<open>[0, 1]\<close> with the probabilities
  \<open>[0.5, 0.5]\<close> both cases are predicted 0, and precision, recall and F1 (as the
  specification defines them) are 0.
\<close>

theorem pb_strictly_above_half:
  "length (pb_of p) = length p
   \<and> (\<forall>i < length p. (pb_of p ! i = 1 \<longleftrightarrow> 0.5 < p ! i) \<and> (pb_of p ! i = 0 \<longleftrightarrow> \<not> 0.5 < p ! i))
   \<and> pb_of [0.5, 0.5] = [0, 0]
   \<and> spec_precision [0, 1] (pb_of [0.5, 0.5]) = 0
   \<and> spec_recall [0, 1] (pb_of [0.5, 0.5]) = 0
   \<and> spec_f1 [0, 1] (pb_of [0.5, 0.5]) = 0"
proof -
  have pb: "pb_of [0.5, 0.5] = [0, 0]" by (simp add: pb_of_def)
  have prec: "spec_precision [0, 1] [0, 0] = 0"
    by (simp add: spec_precision_def n_hit_def n_false_alarm_def)
  have rec: "spec_recall [0, 1] [0, 0] = 0"
    by (simp add: spec_recall_def n_hit_def n_miss_def)
  have "spec_f1 [0, 1] [0, 0] = 0"
    by (simp add: spec_f1_def prec rec)
  with pb prec rec show ?thesis
    by (simp add: pb_of_def)
qed

theorem pb_strictly_above_half_witness:
  "(2::nat) < length [3/10, 1/2, 7/10 :: real]
   \<and> pb_of [3/10, 1/2, 7/10] ! 2 = 1 \<and> (0.5 :: real) < [3/10, 1/2, 7/10] ! 2
   \<and> (1::nat) < length [3/10, 1/2, 7/10 :: real]
   \<and> pb_of [3/10, 1/2, 7/10] ! 1 = 0 \<and> \<not> (0.5 :: real) < [3/10, 1/2, 7/10] ! 1"
proof -
  have all: "\<forall>i < length [3/10, 1/2, 7/10 :: real].
      (pb_of [3/10, 1/2, 7/10] ! i = 1 \<longleftrightarrow> 0.5 < [3/10, 1/2, 7/10 :: real] ! i)
      \<and> (pb_of [3/10, 1/2, 7/10] ! i = 0 \<longleftrightarrow> \<not> 0.5 < [3/10, 1/2, 7/10 :: real] ! i)"
    using pb_strictly_above_half [of "[3/10, 1/2, 7/10]"] by blast
  have l: "(2::nat) < length [3/10, 1/2, 7/10 :: real]" "(1::nat) < length [3/10, 1/2, 7/10 :: real]"
    by simp_all
  have v: "(0.5 :: real) < [3/10, 1/2, 7/10] ! 2" "\<not> (0.5 :: real) < [3/10, 1/2, 7/10] ! 1"
    by simp_all
  from all l v show ?thesis by blast
qed

text \<open>
  C10. When a ranking line is selected for pooling and the predictions read for it
  have no rows, the line is skipped: no error is raised, the list of score lines is
  unchanged (only the run of the aggregation script is recorded), and the loop goes
  on with the next line.
\<close>

theorem empty_predictions_skipped:
  assumes "select_line cfg (py_float env) line = Inr (Some (mdl_str, pred, idx, vlist))"
    and "read_predictions env (path_tail mdl_str) pred = Inr []"
    and "st' = st\<lparr>aggregate_calls := aggregate_calls st @ [(path_tail mdl_str, pred)]\<rparr>"
  shows "process_line cfg env k line st = Inr st'
       \<and> score_lines st' = score_lines st
       \<and> main_loop cfg env k (line # rest) st = main_loop cfg env (k + 1) rest st'"
proof -
  have "process_line cfg env k line st = score_predictor cfg env k mdl_str pred idx vlist st"
    using assms(1) by (simp add: process_line_def)
  also have "\<dots> = Inr st'"
    using assms(2,3) by (simp add: score_predictor_def)
  finally have p: "process_line cfg env k line st = Inr st'" .
  then show ?thesis
    using assms(3) by simp
qed

lemma example_line_empty_selected:
  "select_line example_config (py_float example_environment) example_line_empty =
     Inr (Some (''/data/models/13'', ''nnet'', ''nnet'', [''PCR'']))"
  by code_simp

lemma example_line_empty_read:
  "read_predictions example_environment (path_tail ''/data/models/13'') ''nnet'' = Inr []"
  by code_simp

theorem empty_predictions_skipped_witness:
  "select_line example_config (py_float example_environment) example_line_empty =
     Inr (Some (''/data/models/13'', ''nnet'', ''nnet'', [''PCR'']))
   \<and> read_predictions example_environment (path_tail ''/data/models/13'') ''nnet'' = Inr []
   \<and> process_line example_config example_environment 0 example_line_empty initial_state =
       Inr \<lparr>score_lines = [], aggregate_calls = [(''13'', ''nnet'')]\<rparr>
   \<and> main_loop example_config example_environment 0 [example_line_empty, example_line]
       initial_state =
     main_loop example_config example_environment 1 [example_line]
       \<lparr>score_lines = [], aggregate_calls = [(''13'', ''nnet'')]\<rparr>"
proof -
  have s: "\<lparr>score_lines = [], aggregate_calls = [(''13'', ''nnet'')]\<rparr> =
      initial_state\<lparr>aggregate_calls :=
        aggregate_calls initial_state @ [(path_tail ''/data/models/13'', ''nnet'')]\<rparr>"
    by (simp add: initial_state_def path_tail_def)
  show ?thesis
    using example_line_empty_selected example_line_empty_read
      empty_predictions_skipped
        [OF example_line_empty_selected example_line_empty_read s, of 0 "[example_line]"]
    by simp
qed

end
